theory Spec2Isabelle
  imports Complex_Main
begin

section \<open>Data model\<close>

text \<open>
  \<^verbatim>\<open>HighlightRect\<close> of \<^verbatim>\<open>useAnnotations.ts\<close>. The four geometric fields are
  JavaScript numbers; they are modelled as real numbers, so every statement below is
  about exact arithmetic. The field \<^verbatim>\<open>top\<close> is called \<open>top_y\<close> here, because
  \<open>top\<close> is the greatest element of a lattice in HOL.
\<close>

record HighlightRect =
  height :: real
  left :: real
  top_y :: real
  width :: real
  pageNumber :: int

text \<open>\<^verbatim>\<open>throw new Error(msg)\<close> as a value.\<close>

datatype error = Error string

section \<open>Rectangle consolidation (use-selection-dimensions)\<close>

definition MERGE_THRESHOLD :: real where
  "MERGE_THRESHOLD = 2"

definition shouldMergeRects :: "HighlightRect \<Rightarrow> HighlightRect \<Rightarrow> bool" where
  "shouldMergeRects rect1 rect2 =
     (let verticalOverlap =
            (\<not> (top_y rect1 > top_y rect2 + height rect2 \<or>
                top_y rect2 > top_y rect1 + height rect1));
          horizontallyConnected =
            (\<bar>left rect1 + width rect1 - left rect2\<bar> \<le> MERGE_THRESHOLD \<or>
             \<bar>left rect2 + width rect2 - left rect1\<bar> \<le> MERGE_THRESHOLD \<or>
             (left rect1 < left rect2 + width rect2 \<and>
              left rect2 < left rect1 + width rect1))
      in verticalOverlap \<and> horizontallyConnected)"

definition doRectsOverlap :: "HighlightRect \<Rightarrow> HighlightRect \<Rightarrow> bool" where
  "doRectsOverlap rect1 rect2 =
     (let horizontalOverlap =
            (left rect1 < left rect2 + width rect2 \<and>
             left rect2 < left rect1 + width rect1);
          verticalOverlap =
            (top_y rect1 < top_y rect2 + height rect2 \<and>
             top_y rect2 < top_y rect1 + height rect1);
          closeEnough = shouldMergeRects rect1 rect2
      in (horizontalOverlap \<and> verticalOverlap) \<or> closeEnough)"

text \<open>
  The \<^verbatim>\<open>forEach\<close> of \<^verbatim>\<open>mergeRectGroup\<close> updates four running extremes; one step of
  it is \<open>growBounds\<close>. An empty group makes \<^verbatim>\<open>rects[0]\<close> undefined and the function
  throws.
\<close>

definition growBounds ::
  "HighlightRect \<Rightarrow> real \<times> real \<times> real \<times> real \<Rightarrow> real \<times> real \<times> real \<times> real" where
  "growBounds rect b =
     (case b of (minLeft, minTop, maxRight, maxBottom) \<Rightarrow>
        (min minLeft (left rect),
         min minTop (top_y rect),
         max maxRight (left rect + width rect),
         max maxBottom (top_y rect + height rect)))"

fun mergeRectGroup :: "HighlightRect list \<Rightarrow> error + HighlightRect" where
  "mergeRectGroup [] = Inl (Error ''Invalid first rect in group'')"
| "mergeRectGroup [rect] = Inr rect"
| "mergeRectGroup (firstRect # rest) =
     (case fold growBounds (firstRect # rest)
             (left firstRect, top_y firstRect,
              left firstRect + width firstRect, top_y firstRect + height firstRect) of
        (minLeft, minTop, maxRight, maxBottom) \<Rightarrow>
          Inr \<lparr>height = maxBottom - minTop, left = minLeft, top_y = minTop,
               width = maxRight - minLeft, pageNumber = pageNumber firstRect\<rparr>)"

text \<open>
  The inner \<^verbatim>\<open>for (j ...)\<close> loop of \<^verbatim>\<open>consolidateRects\<close>: one pass over all
  indices, absorbing every unvisited rectangle that overlaps a member of the group.
  The state is \<open>(visited, currentGroup, foundNew)\<close>.
\<close>

definition scanStep ::
  "HighlightRect list \<Rightarrow> nat \<Rightarrow> nat set \<times> HighlightRect list \<times> bool \<Rightarrow>
   nat set \<times> HighlightRect list \<times> bool" where
  "scanStep rects j st =
     (case st of (visited, currentGroup, foundNew) \<Rightarrow>
        if j \<in> visited then (visited, currentGroup, foundNew)
        else
          let candidateRect = rects ! j;
              shouldMergeWithGroup =
                list_ex (\<lambda>groupRect. doRectsOverlap groupRect candidateRect) currentGroup
          in if shouldMergeWithGroup
             then (insert j visited, currentGroup @ [candidateRect], True)
             else (visited, currentGroup, foundNew))"

definition scanPass ::
  "HighlightRect list \<Rightarrow> nat set \<times> HighlightRect list \<times> bool \<Rightarrow>
   nat set \<times> HighlightRect list \<times> bool" where
  "scanPass rects st = fold (scanStep rects) [0..<length rects] st"

lemma scanStep_mono:
  "scanStep rects j (v, g, f) = (v', g', f') \<Longrightarrow>
     v \<subseteq> v' \<and> v' \<subseteq> insert j v \<and> (f' \<longrightarrow> f \<or> v \<subset> v')"
  by (auto simp: scanStep_def Let_def split: if_splits)

lemma fold_scanStep_grows:
  "fold (scanStep rects) js (v, g, f) = (v', g', f') \<Longrightarrow>
     v \<subseteq> v' \<and> v' \<subseteq> v \<union> set js \<and> (f' \<longrightarrow> f \<or> v \<subset> v')"
proof (induction js arbitrary: v g f)
  case Nil
  then show ?case by simp
next
  case (Cons j js)
  obtain v1 g1 f1 where s: "scanStep rects j (v, g, f) = (v1, g1, f1)"
    by (cases "scanStep rects j (v, g, f)") auto
  from Cons.prems s have r: "fold (scanStep rects) js (v1, g1, f1) = (v', g', f')"
    by simp
  from Cons.IH [OF r] scanStep_mono [OF s] show ?case
    by auto
qed

text \<open>
  The \<^verbatim>\<open>while (foundNew)\<close> loop: passes are repeated until one of them absorbs
  nothing. Each productive pass visits a new index below \<^verbatim>\<open>rects.length\<close>, which is
  why the loop ends.
\<close>

function absorbLoop ::
  "HighlightRect list \<Rightarrow> nat set \<Rightarrow> HighlightRect list \<Rightarrow> nat set \<times> HighlightRect list" where
  "absorbLoop rects visited currentGroup =
     (case scanPass rects (visited, currentGroup, False) of
        (visited', currentGroup', foundNew) \<Rightarrow>
          if foundNew then absorbLoop rects visited' currentGroup'
          else (visited', currentGroup'))"
  by pat_completeness auto
termination
proof (relation "measure (\<lambda>(rects, visited, g). card ({0..<length rects} - visited))")
  show "wf (measure (\<lambda>(rects, visited, g). card ({0..<length rects} - visited)))"
    by simp
next
  fix rects :: "HighlightRect list" and visited currentGroup x y xa ya
  assume a: "(x, y) = scanPass rects (visited, currentGroup, False)"
    and b: "(xa, ya) = y" and c: "ya"
  from a b c have "fold (scanStep rects) [0..<length rects] (visited, currentGroup, False)
      = (x, xa, True)"
    by (simp add: scanPass_def)
  from fold_scanStep_grows [OF this]
  have "visited \<subset> x" and "x \<subseteq> visited \<union> {0..<length rects}"
    by auto
  then have "{0..<length rects} - x \<subset> {0..<length rects} - visited"
    by auto
  then have "card ({0..<length rects} - x) < card ({0..<length rects} - visited)"
    by (intro psubset_card_mono) auto
  then show "((rects, x, xa), (rects, visited, currentGroup))
      \<in> measure (\<lambda>(rects, visited, g). card ({0..<length rects} - visited))"
    by simp
qed

declare absorbLoop.simps [simp del]

text \<open>
  The outer \<^verbatim>\<open>for (i ...)\<close> loop, over the indices still to come, with the visited set
  and the result so far.
\<close>

fun groupLoop ::
  "HighlightRect list \<Rightarrow> nat list \<Rightarrow> nat set \<Rightarrow> HighlightRect list \<Rightarrow>
   error + HighlightRect list" where
  "groupLoop rects [] visited result = Inr result"
| "groupLoop rects (i # rest) visited result =
     (if i \<in> visited then groupLoop rects rest visited result
      else
        case absorbLoop rects (insert i visited) [rects ! i] of
          (visited', currentGroup) \<Rightarrow>
            (case mergeRectGroup currentGroup of
               Inl e \<Rightarrow> Inl e
             | Inr merged \<Rightarrow> groupLoop rects rest visited' (result @ [merged])))"

definition consolidateRects :: "HighlightRect list \<Rightarrow> error + HighlightRect list" where
  "consolidateRects rects =
     (if length rects \<le> 1 then Inr rects
      else groupLoop rects [0..<length rects] {} [])"


text \<open>
  \<^verbatim>\<open>Array.prototype.sort\<close> with a comparator. ECMAScript requires the sort to be
  stable, so for a comparator that is a consistent ordering of the array the result is
  the stable insertion sort below. (For an inconsistent comparator the standard leaves
  the order to the engine; the model then fixes the insertion order.)
\<close>

fun insort_cmp :: "('a \<Rightarrow> 'a \<Rightarrow> real) \<Rightarrow> 'a \<Rightarrow> 'a list \<Rightarrow> 'a list" where
  "insort_cmp cmp x [] = [x]"
| "insort_cmp cmp x (y # ys) =
     (if cmp x y \<le> 0 then x # y # ys else y # insort_cmp cmp x ys)"

definition sort_cmp :: "('a \<Rightarrow> 'a \<Rightarrow> real) \<Rightarrow> 'a list \<Rightarrow> 'a list" where
  "sort_cmp cmp xs = foldr (insort_cmp cmp) xs []"

text \<open>The comparator of \<^verbatim>\<open>consolidateHighlightRects\<close>.\<close>

definition highlightCompare :: "HighlightRect \<Rightarrow> HighlightRect \<Rightarrow> real" where
  "highlightCompare a b =
     (let pageCompare = real_of_int (pageNumber a - pageNumber b)
      in if pageCompare \<noteq> 0 then pageCompare
         else
           let topDiff = top_y a - top_y b
           in if \<bar>topDiff\<bar> < 2 then left a - left b else topDiff)"

text \<open>The merge test and the merge of the loop body of \<^verbatim>\<open>consolidateHighlightRects\<close>.\<close>

definition highlightsConnected :: "HighlightRect \<Rightarrow> HighlightRect \<Rightarrow> bool" where
  "highlightsConnected current next =
     (let samePageAndLine =
            (pageNumber current = pageNumber next \<and>
             \<bar>top_y current - top_y next\<bar> < max (height current) (height next) * 0.5);
          horizontallyConnected =
            (samePageAndLine \<and>
             (\<bar>left current + width current - left next\<bar> \<le> MERGE_THRESHOLD \<or>
              \<bar>left next + width next - left current\<bar> \<le> MERGE_THRESHOLD \<or>
              (left current < left next + width next \<and>
               left next < left current + width current) \<or>
              \<bar>left current + width current - left next\<bar> \<le> height current * 0.2))
      in horizontallyConnected)"

definition mergeHighlights :: "HighlightRect \<Rightarrow> HighlightRect \<Rightarrow> HighlightRect" where
  "mergeHighlights current next =
     (let newLeft = min (left current) (left next);
          newRight = max (left current + width current) (left next + width next);
          newTop = min (top_y current) (top_y next);
          newBottom = max (top_y current + height current) (top_y next + height next)
      in \<lparr>height = newBottom - newTop, left = newLeft, top_y = newTop,
           width = newRight - newLeft, pageNumber = pageNumber current\<rparr>)"

text \<open>
  The \<^verbatim>\<open>for\<close> loop over \<^verbatim>\<open>sorted[1..]\<close>, with the rectangle being grown and the
  rectangles already pushed; the final push is the base case.
\<close>

fun highlightLoop ::
  "HighlightRect \<Rightarrow> HighlightRect list \<Rightarrow> HighlightRect list \<Rightarrow> HighlightRect list" where
  "highlightLoop current [] consolidated = consolidated @ [current]"
| "highlightLoop current (next # rest) consolidated =
     (if highlightsConnected current next
      then highlightLoop (mergeHighlights current next) rest consolidated
      else highlightLoop next rest (consolidated @ [current]))"

definition consolidateHighlightRects :: "HighlightRect list \<Rightarrow> HighlightRect list" where
  "consolidateHighlightRects rects =
     (if length rects \<le> 1 then rects
      else
        case sort_cmp highlightCompare rects of
          [] \<Rightarrow> rects
        | current # rest \<Rightarrow> highlightLoop current rest [])"

section \<open>Annotation store (useAnnotations) and the comment composer\<close>

text \<open>
  \<^verbatim>\<open>Annotation\<close>. Optional fields are options, dates are milliseconds, and the
  metadata record is an association list. \<open>id\<close> and \<open>pageNumber\<close> carry a prime:
  the first is the identity function of HOL, the second a field of
  \<open>HighlightRect\<close>.
\<close>

record Annotation =
  id' :: string
  pageNumber' :: int
  highlights :: "HighlightRect list"
  underlines :: "HighlightRect list option"
  color :: string
  borderColor :: string
  comment :: "string option"
  createdAt :: int
  updatedAt :: int
  metadata :: "(string \<times> string) list option"
  isCommentPending :: "bool option"

text \<open>
  \<^verbatim>\<open>Partial<Annotation>\<close>: \<open>None\<close> is an absent key. A key of an optional
  field may be present with the value \<^verbatim>\<open>undefined\<close>, which is \<open>Some None\<close>.
\<close>

record AnnotationUpdates =
  u_id :: "string option"
  u_pageNumber :: "int option"
  u_highlights :: "HighlightRect list option"
  u_underlines :: "HighlightRect list option option"
  u_color :: "string option"
  u_borderColor :: "string option"
  u_comment :: "string option option"
  u_createdAt :: "int option"
  u_updatedAt :: "int option"
  u_metadata :: "(string \<times> string) list option option"
  u_isCommentPending :: "bool option option"

text \<open>The object spread \<^verbatim>\<open>{ ...annotation, ...updates }\<close>.\<close>

definition override :: "'a \<Rightarrow> 'a option \<Rightarrow> 'a" where
  "override old new = (case new of None \<Rightarrow> old | Some v \<Rightarrow> v)"

definition spreadUpdates :: "Annotation \<Rightarrow> AnnotationUpdates \<Rightarrow> Annotation" where
  "spreadUpdates annotation updates =
     \<lparr>id' = override (id' annotation) (u_id updates),
      pageNumber' = override (pageNumber' annotation) (u_pageNumber updates),
      highlights = override (highlights annotation) (u_highlights updates),
      underlines = override (underlines annotation) (u_underlines updates),
      color = override (color annotation) (u_color updates),
      borderColor = override (borderColor annotation) (u_borderColor updates),
      comment = override (comment annotation) (u_comment updates),
      createdAt = override (createdAt annotation) (u_createdAt updates),
      updatedAt = override (updatedAt annotation) (u_updatedAt updates),
      metadata = override (metadata annotation) (u_metadata updates),
      isCommentPending = override (isCommentPending annotation) (u_isCommentPending updates)\<rparr>"

text \<open>The four actions of the store, on its one field \<^verbatim>\<open>annotations\<close>.\<close>

definition addAnnotation :: "Annotation \<Rightarrow> Annotation list \<Rightarrow> Annotation list" where
  "addAnnotation annotation annotations = annotations @ [annotation]"

definition updateAnnotation ::
  "string \<Rightarrow> AnnotationUpdates \<Rightarrow> Annotation list \<Rightarrow> Annotation list" where
  "updateAnnotation i updates annotations =
     map (\<lambda>annotation. if id' annotation = i then spreadUpdates annotation updates
                        else annotation) annotations"

definition deleteAnnotation :: "string \<Rightarrow> Annotation list \<Rightarrow> Annotation list" where
  "deleteAnnotation i annotations = filter (\<lambda>annotation. id' annotation \<noteq> i) annotations"

definition setAnnotations :: "Annotation list \<Rightarrow> Annotation list \<Rightarrow> Annotation list" where
  "setAnnotations new annotations = new"

text \<open>
  The state the handlers of \<^verbatim>\<open>PDFContent\<close> read and write: the store's list and the
  two \<^verbatim>\<open>useState\<close> cells. Each handler is taken with the list of the render it was
  created in being the current one.
\<close>

record PendingSelection =
  ps_highlights :: "HighlightRect list"
  ps_underlines :: "HighlightRect list"
  ps_text :: string
  ps_pageNumber :: int

record PDFContentState =
  annotations :: "Annotation list"
  editingAnnotationId :: "string option"
  pendingSelection :: "PendingSelection option"

text \<open>JavaScript truthiness of a string that may be absent, and of an optional flag.\<close>

definition truthyString :: "string option \<Rightarrow> bool" where
  "truthyString v = (case v of None \<Rightarrow> False | Some t \<Rightarrow> t \<noteq> [])"

definition truthyFlag :: "bool option \<Rightarrow> bool" where
  "truthyFlag v = (case v of None \<Rightarrow> False | Some b \<Rightarrow> b)"

definition emptyUpdates :: AnnotationUpdates where
  "emptyUpdates =
     \<lparr>u_id = None, u_pageNumber = None, u_highlights = None, u_underlines = None,
      u_color = None, u_borderColor = None, u_comment = None, u_createdAt = None,
      u_updatedAt = None, u_metadata = None, u_isCommentPending = None\<rparr>"

text \<open>\<^verbatim>\<open>handleSaveComment\<close>; \<open>now\<close> is the value of \<^verbatim>\<open>new Date()\<close>.\<close>

definition handleSaveComment :: "int \<Rightarrow> string \<Rightarrow> PDFContentState \<Rightarrow> PDFContentState" where
  "handleSaveComment now c s =
     (if pendingSelection s = None \<or> \<not> truthyString (editingAnnotationId s) then s
      else
        let updates = emptyUpdates\<lparr>u_comment := Some (Some c), u_updatedAt := Some now\<rparr>
        in s\<lparr>annotations :=
                 updateAnnotation (the (editingAnnotationId s)) updates (annotations s),
              editingAnnotationId := None,
              pendingSelection := None\<rparr>)"

definition handleCancelComment :: "PDFContentState \<Rightarrow> PDFContentState" where
  "handleCancelComment s =
     (let s1 =
            (case editingAnnotationId s of
               None \<Rightarrow> s
             | Some eid \<Rightarrow>
                 if eid = [] then s
                 else
                   (case find (\<lambda>a. id' a = eid) (annotations s) of
                      None \<Rightarrow> s
                    | Some annotation \<Rightarrow>
                        if \<not> truthyString (comment annotation)
                        then s\<lparr>annotations := deleteAnnotation eid (annotations s)\<rparr>
                        else s))
      in s1\<lparr>editingAnnotationId := None, pendingSelection := None\<rparr>)"

definition handleAnnotationTooltipClose ::
  "Annotation \<Rightarrow> PDFContentState \<Rightarrow> PDFContentState" where
  "handleAnnotationTooltipClose annotation s =
     (let s1 =
            (if truthyFlag (isCommentPending annotation) \<and>
                \<not> truthyString (comment annotation)
             then s\<lparr>annotations := deleteAnnotation (id' annotation) (annotations s)\<rparr>
             else s)
      in s1\<lparr>editingAnnotationId := None, pendingSelection := None\<rparr>)"

section \<open>Selection extraction (getAnnotationDimension)\<close>

text \<open>
  What the function reads from the browser. A \<^verbatim>\<open>DOMRect\<close> of
  \<^verbatim>\<open>range.getClientRects()\<close>; its \<^verbatim>\<open>right\<close> and \<^verbatim>\<open>bottom\<close> are
  \<open>left + width\<close> and \<open>top + height\<close>.
\<close>

record ClientRect =
  cr_left :: real
  cr_top :: real
  cr_width :: real
  cr_height :: real

text \<open>
  The \<^verbatim>\<open>.textLayer\<close> ancestor of an element: the integer that \<^verbatim>\<open>parseInt\<close> reads
  from its \<^verbatim>\<open>data-page-number\<close> attribute (1 when the attribute is missing), and the
  corner of its bounding rectangle.
\<close>

record TextLayer =
  dataPageNumber :: int
  layerLeft :: real
  layerTop :: real

text \<open>
  An element of the document, as far as the function looks at it: the result of
  \<^verbatim>\<open>closest(".textLayer")\<close> and the verdict of the local test
  \<^verbatim>\<open>isSuperOrSubScript\<close>, which reads tag, classes and layout of the element.
\<close>

record Element =
  closestTextLayer :: "TextLayer option"
  isSuperOrSubScript :: bool

text \<open>\<^verbatim>\<open>document.elementFromPoint\<close>.\<close>

type_synonym Document = "real \<Rightarrow> real \<Rightarrow> Element option"

text \<open>
  A range with its client rectangles and with \<^verbatim>\<open>range.toString().trim()\<close>; a
  selection with its \<^verbatim>\<open>isCollapsed\<close> attribute and its ranges.
  \<^verbatim>\<open>getRangeAt(0)\<close> throws an \<^verbatim>\<open>IndexSizeError\<close> when there is no range.
\<close>

record DomRange =
  clientRects :: "ClientRect list"
  trimmedText :: string

record DomSelection =
  isCollapsed :: bool
  ranges :: "DomRange list"

text \<open>The value \<^verbatim>\<open>getAnnotationDimension\<close> returns when it returns an object.\<close>

record SelectionDimension =
  sel_highlights :: "HighlightRect list"
  sel_underlines :: "HighlightRect list"
  sel_text :: string
  sel_isCollapsed :: bool

text \<open>The five probes for the element under a client rectangle.\<close>

definition firstFound :: "'a option \<Rightarrow> 'a option \<Rightarrow> 'a option" where
  "firstFound found probe = (case found of None \<Rightarrow> probe | Some e \<Rightarrow> Some e)"

definition probeElement :: "Document \<Rightarrow> ClientRect \<Rightarrow> Element option" where
  "probeElement elementFromPoint clientRect =
     (let l = cr_left clientRect; t = cr_top clientRect;
          w = cr_width clientRect; h = cr_height clientRect;
          element = elementFromPoint (l + 1) (t + h / 2);
          element = firstFound element (elementFromPoint (l + w / 2) (t + h / 2));
          element = firstFound element (elementFromPoint (l + w - 1) (t + h / 2));
          element = firstFound element (elementFromPoint (l + w / 2) (t + 1));
          element = firstFound element (elementFromPoint (l + w / 2) (t + h - 1))
      in element)"

text \<open>
  A \<^verbatim>\<open>Map<number, HighlightRect[]>\<close> in insertion order, and the
  \<^verbatim>\<open>has\<close>/\<^verbatim>\<open>set\<close>/\<^verbatim>\<open>get(...).push\<close> sequence on it.
\<close>

type_synonym PageMap = "(int \<times> HighlightRect list) list"

definition pushRect :: "int \<Rightarrow> HighlightRect \<Rightarrow> PageMap \<Rightarrow> PageMap" where
  "pushRect p rect m =
     (let m1 = (if p \<in> fst ` set m then m else m @ [(p, [])])
      in map (\<lambda>(k, rects). if k = p then (k, rects @ [rect]) else (k, rects)) m1)"

text \<open>The body of \<^verbatim>\<open>clientRects.forEach\<close>, on the two maps.\<close>

definition collectRect ::
  "Document \<Rightarrow> real \<Rightarrow> ClientRect \<Rightarrow> PageMap \<times> PageMap \<Rightarrow> PageMap \<times> PageMap" where
  "collectRect elementFromPoint zoom clientRect maps =
     (case maps of (textLayerMapHighlight, textLayerMapUnderline) \<Rightarrow>
        (case probeElement elementFromPoint clientRect of
           None \<Rightarrow> maps
         | Some element \<Rightarrow>
             (case closestTextLayer element of
                None \<Rightarrow> maps
              | Some textLayer \<Rightarrow>
                  let pageNo = dataPageNumber textLayer;
                      highlightRect =
                        \<lparr>height = cr_height clientRect / zoom,
                         left = (cr_left clientRect - layerLeft textLayer) / zoom,
                         top_y = (cr_top clientRect - layerTop textLayer) / zoom,
                         width = cr_width clientRect / zoom,
                         pageNumber = pageNo\<rparr>;
                      highlightMap = pushRect pageNo highlightRect textLayerMapHighlight;
                      shouldCreateUnderline = (\<not> isSuperOrSubScript element);
                      baselineOffset = cr_height clientRect * 0.85;
                      underlineHeight = 2;
                      underlineRect =
                        \<lparr>height = underlineHeight / zoom,
                         left = (cr_left clientRect - layerLeft textLayer) / zoom,
                         top_y = (cr_top clientRect - layerTop textLayer + baselineOffset) / zoom,
                         width = cr_width clientRect / zoom,
                         pageNumber = pageNo\<rparr>
                  in if shouldCreateUnderline
                     then (highlightMap, pushRect pageNo underlineRect textLayerMapUnderline)
                     else (highlightMap, textLayerMapUnderline))))"

text \<open>\<^verbatim>\<open>groupRectsByLine\<close>: a rectangle joins the first group whose first member has
  its vertical centre within 3 units, or opens a new group at the end.\<close>

definition VERTICAL_TOLERANCE :: real where
  "VERTICAL_TOLERANCE = 3"

fun addToLine :: "HighlightRect \<Rightarrow> HighlightRect list list \<Rightarrow> HighlightRect list list" where
  "addToLine rect [] = [[rect]]"
| "addToLine rect ([] # groups) = [] # addToLine rect groups"
| "addToLine rect ((firstRect # others) # groups) =
     (let centerY = top_y rect + height rect / 2;
          groupCenterY = top_y firstRect + height firstRect / 2
      in if \<bar>centerY - groupCenterY\<bar> \<le> VERTICAL_TOLERANCE
         then ((firstRect # others) @ [rect]) # groups
         else (firstRect # others) # addToLine rect groups)"

definition groupRectsByLine :: "HighlightRect list \<Rightarrow> HighlightRect list list" where
  "groupRectsByLine rects = foldl (\<lambda>groups rect. addToLine rect groups) [] rects"

text \<open>
  The two nested \<^verbatim>\<open>while\<close> loops over a line sorted by \<open>left\<close>. The inner one
  walks from \<^verbatim>\<open>group[endIndex]\<close> while the gap to the next rectangle is small and
  yields the last rectangle reached with the rectangles after it; the outer one emits
  one underline for each run.
\<close>

fun extendRun :: "HighlightRect \<Rightarrow> HighlightRect list \<Rightarrow> HighlightRect \<times> HighlightRect list" where
  "extendRun currentRect [] = (currentRect, [])"
| "extendRun currentRect (nextRect # rest) =
     (let gap = left nextRect - (left currentRect + width currentRect);
          maxGapAllowed = max MERGE_THRESHOLD (height currentRect * 0.3)
      in if gap \<le> maxGapAllowed then extendRun nextRect rest
         else (currentRect, nextRect # rest))"

lemma extendRun_shorter: "length (snd (extendRun c rest)) \<le> length rest"
  by (induction rest arbitrary: c) (simp_all add: Let_def le_SucI)

function underlineRuns :: "HighlightRect list \<Rightarrow> HighlightRect list" where
  "underlineRuns [] = []"
| "underlineRuns (startRect # rest) =
     (case extendRun startRect rest of
        (endRect, remaining) \<Rightarrow>
          \<lparr>height = 1.5, left = left startRect, top_y = top_y startRect,
           width = left endRect + width endRect - left startRect,
           pageNumber = pageNumber startRect\<rparr> # underlineRuns remaining)"
  by pat_completeness auto
termination
proof (relation "measure length")
  show "wf (measure length)"
    by simp
next
  fix startRect :: HighlightRect and rest x xa y
  assume "(x, y) = extendRun startRect rest"
  then have "y = snd (extendRun startRect rest)"
    by (metis snd_conv)
  with extendRun_shorter [of startRect rest]
  show "(y, startRect # rest) \<in> measure length"
    by simp
qed

text \<open>
  \<^verbatim>\<open>consolidateUnderlines\<close>. The source reads \<^verbatim>\<open>sorted[0]!\<close> without a
  test; the sorted copy of two or more rectangles is never empty, so the \<open>[]\<close> case
  below is not reached.
\<close>

definition underlineCompare :: "HighlightRect \<Rightarrow> HighlightRect \<Rightarrow> real" where
  "underlineCompare a b =
     (let pageCompare = real_of_int (pageNumber a - pageNumber b)
      in if pageCompare \<noteq> 0 then pageCompare
         else
           let topCompare = top_y a - top_y b
           in if \<bar>topCompare\<bar> < 1 then left a - left b else topCompare)"

definition underlinesConnected :: "HighlightRect \<Rightarrow> HighlightRect \<Rightarrow> bool" where
  "underlinesConnected current next =
     (let samePageAndLine =
            (pageNumber current = pageNumber next \<and> \<bar>top_y current - top_y next\<bar> < 1);
          horizontallyConnected =
            (samePageAndLine \<and>
             (\<bar>left current + width current - left next\<bar> \<le> MERGE_THRESHOLD \<or>
              (left current < left next + width next \<and>
               left next < left current + width current)))
      in horizontallyConnected)"

definition mergeUnderlines :: "HighlightRect \<Rightarrow> HighlightRect \<Rightarrow> HighlightRect" where
  "mergeUnderlines current next =
     (let newWidth =
            max (left current + width current) (left next + width next) -
            min (left current) (left next)
      in current\<lparr>left := min (left current) (left next), width := newWidth\<rparr>)"

fun underlineLoop ::
  "HighlightRect \<Rightarrow> HighlightRect list \<Rightarrow> HighlightRect list \<Rightarrow> HighlightRect list" where
  "underlineLoop current [] consolidated = consolidated @ [current]"
| "underlineLoop current (next # rest) consolidated =
     (if underlinesConnected current next
      then underlineLoop (mergeUnderlines current next) rest consolidated
      else underlineLoop next rest (consolidated @ [current]))"

definition consolidateUnderlines :: "HighlightRect list \<Rightarrow> HighlightRect list" where
  "consolidateUnderlines underlineRects =
     (if length underlineRects \<le> 1 then underlineRects
      else
        case sort_cmp underlineCompare underlineRects of
          [] \<Rightarrow> underlineRects
        | current # rest \<Rightarrow> underlineLoop current rest [])"

text \<open>The comparator \<^verbatim>\<open>(a, b) => a.pageNumber - b.pageNumber\<close> of the final sorts,
  and \<^verbatim>\<open>(a, b) => a.left - b.left\<close> of the sort of a line.\<close>

definition pageCompare :: "HighlightRect \<Rightarrow> HighlightRect \<Rightarrow> real" where
  "pageCompare a b = real_of_int (pageNumber a - pageNumber b)"

definition leftCompare :: "HighlightRect \<Rightarrow> HighlightRect \<Rightarrow> real" where
  "leftCompare a b = left a - left b"

text \<open>
  \<^verbatim>\<open>getAnnotationDimension\<close>: \<open>None\<close> for \<^verbatim>\<open>window.getSelection()\<close> is
  \<^verbatim>\<open>null\<close>, \<open>Inr None\<close> for the result is \<^verbatim>\<open>undefined\<close>, \<open>Inl\<close> is a thrown
  exception. \<open>zoom\<close> is \<^verbatim>\<open>store.getState().zoom\<close>, taken to be non-zero (HOL
  divides by zero to 0, JavaScript to an infinity or NaN).
\<close>

definition getAnnotationDimension ::
  "Document \<Rightarrow> real \<Rightarrow> DomSelection option \<Rightarrow> error + SelectionDimension option" where
  "getAnnotationDimension elementFromPoint zoom selection =
     (case selection of
        None \<Rightarrow> Inr None
      | Some sel \<Rightarrow>
          if isCollapsed sel then Inr None
          else
            (case ranges sel of
               [] \<Rightarrow> Inl (Error ''IndexSizeError'')
             | firstRange # _ \<Rightarrow>
                 let rects = filter (\<lambda>rect. cr_width rect > 2 \<and> cr_height rect > 2)
                               (clientRects firstRange);
                     maps = fold (collectRect elementFromPoint zoom) rects ([], []);
                     highlightRects =
                       concat (map (\<lambda>(p, rects).
                                      if length rects > 0
                                      then (if length rects = 1 then rects
                                            else consolidateHighlightRects rects)
                                      else [])
                                 (fst maps));
                     lineRects =
                       concat (map (\<lambda>(p, rects).
                                      if length rects > 0
                                      then concat (map (\<lambda>group.
                                                          underlineRuns (sort_cmp leftCompare group))
                                                     (groupRectsByLine rects))
                                      else [])
                                 (snd maps));
                     underlineRects =
                       (if length lineRects = 0 \<and> length highlightRects > 0
                        then map (\<lambda>highlightRect.
                                    \<lparr>height = 1.5, left = left highlightRect,
                                     top_y = top_y highlightRect + height highlightRect * 0.85,
                                     width = width highlightRect,
                                     pageNumber = pageNumber highlightRect\<rparr>)
                               highlightRects
                        else lineRects)
                 in Inr (Some
                      \<lparr>sel_highlights = sort_cmp pageCompare highlightRects,
                       sel_underlines = sort_cmp pageCompare (consolidateUnderlines underlineRects),
                       sel_text = trimmedText firstRange,
                       sel_isCollapsed = False\<rparr>)))"

section \<open>Raster surfaces (useCanvasLayer, useDetailCanvasLayer)\<close>

definition MAX_CANVAS_PIXELS :: real where
  "MAX_CANVAS_PIXELS = 16777216"

definition MAX_CANVAS_DIMENSION :: real where
  "MAX_CANVAS_DIMENSION = 32767"


text \<open>
  The width and height that the layout effect of \<^verbatim>\<open>useCanvasLayer\<close> assigns to the
  base canvas of a page of unscaled size \<open>pageWidth\<close> by \<open>pageHeight\<close>.
\<close>

definition baseCanvasSize :: "real \<Rightarrow> real \<Rightarrow> real \<Rightarrow> real \<Rightarrow> int \<times> int" where
  "baseCanvasSize dpr zoom pageWidth pageHeight =
     (let targetScale = dpr * zoom
      in (\<lfloor>pageWidth * targetScale\<rfloor>, \<lfloor>pageHeight * targetScale\<rfloor>))"

section \<open>Notions used in the statements\<close>

text \<open>Geometric containment of one rectangle in another.\<close>

definition containsRect :: "HighlightRect \<Rightarrow> HighlightRect \<Rightarrow> bool" where
  "containsRect outer inner =
     (left outer \<le> left inner \<and> top_y outer \<le> top_y inner \<and>
      left inner + width inner \<le> left outer + width outer \<and>
      top_y inner + height inner \<le> top_y outer + height outer)"

text \<open>No two rectangles at different positions of the list pass \<open>doRectsOverlap\<close>.\<close>

definition noOverlappingPair :: "HighlightRect list \<Rightarrow> bool" where
  "noOverlappingPair rects =
     (\<forall>i < length rects. \<forall>j < length rects.
        i \<noteq> j \<longrightarrow> \<not> doRectsOverlap (rects ! i) (rects ! j))"

text \<open>No rectangle of the list passes the merge test with its successor.\<close>

fun noConnectedNeighbours :: "HighlightRect list \<Rightarrow> bool" where
  "noConnectedNeighbours [] = True"
| "noConnectedNeighbours [r] = True"
| "noConnectedNeighbours (r # n # rest) =
     (\<not> highlightsConnected r n \<and> noConnectedNeighbours (n # rest))"


text \<open>No client rectangle that passes the size filter resolves to a text layer.\<close>

definition unresolved :: "Document \<Rightarrow> ClientRect \<Rightarrow> bool" where
  "unresolved elementFromPoint clientRect =
     (case probeElement elementFromPoint clientRect of
        None \<Rightarrow> True
      | Some element \<Rightarrow> closestTextLayer element = None)"

section \<open>Example values\<close>

definition pendingNote :: Annotation where
  "pendingNote =
     \<lparr>id' = ''a1'', pageNumber' = 1,
      highlights = [\<lparr>height = 10, left = 0, top_y = 0, width = 50, pageNumber = 1\<rparr>],
      underlines = None, color = ''blue'', borderColor = ''navy'', comment = None,
      createdAt = 100, updatedAt = 100, metadata = None, isCommentPending = Some True\<rparr>"

definition plainHighlight :: Annotation where
  "plainHighlight =
     \<lparr>id' = ''a2'', pageNumber' = 2,
      highlights = [\<lparr>height = 10, left = 5, top_y = 20, width = 40, pageNumber = 2\<rparr>],
      underlines = None, color = ''yellow'', borderColor = ''gold'', comment = None,
      createdAt = 50, updatedAt = 50, metadata = None, isCommentPending = None\<rparr>"

definition composing :: PDFContentState where
  "composing =
     \<lparr>annotations = [plainHighlight, pendingNote],
      editingAnnotationId = Some ''a1'',
      pendingSelection = None\<rparr>"

text \<open>A tall bar, a wide bar across its foot, and a small box inside their hull.\<close>

definition rA :: HighlightRect where
  "rA = \<lparr>height = 100, left = 0, top_y = 0, width = 10, pageNumber = 1\<rparr>"

definition rB :: HighlightRect where
  "rB = \<lparr>height = 10, left = 0, top_y = 90, width = 100, pageNumber = 1\<rparr>"

definition rC :: HighlightRect where
  "rC = \<lparr>height = 10, left = 50, top_y = 0, width = 10, pageNumber = 1\<rparr>"

definition rM :: HighlightRect where
  "rM = \<lparr>height = 100, left = 0, top_y = 0, width = 100, pageNumber = 1\<rparr>"

text \<open>A line at top 0, and two overlapping rectangles at top 8, one of them tall.\<close>

definition hA :: HighlightRect where
  "hA = \<lparr>height = 10, left = 0, top_y = 0, width = 10, pageNumber = 1\<rparr>"

definition hB :: HighlightRect where
  "hB = \<lparr>height = 10, left = 0, top_y = 8, width = 10, pageNumber = 1\<rparr>"

definition hC :: HighlightRect where
  "hC = \<lparr>height = 30, left = 5, top_y = 8, width = 10, pageNumber = 1\<rparr>"

definition hM :: HighlightRect where
  "hM = \<lparr>height = 30, left = 0, top_y = 8, width = 15, pageNumber = 1\<rparr>"

definition hN :: HighlightRect where
  "hN = \<lparr>height = 38, left = 0, top_y = 0, width = 15, pageNumber = 1\<rparr>"

text \<open>Two overlapping rectangles on different pages, and their hull.\<close>

definition pA :: HighlightRect where
  "pA = \<lparr>height = 10, left = 0, top_y = 0, width = 10, pageNumber = 1\<rparr>"

definition pB :: HighlightRect where
  "pB = \<lparr>height = 10, left = 5, top_y = 5, width = 10, pageNumber = 2\<rparr>"


text \<open>The two rectangles of the merge scenario, and the second one moved to 60.\<close>

definition sA :: HighlightRect where
  "sA = \<lparr>height = 10, left = 0, top_y = 0, width = 50, pageNumber = 1\<rparr>"

definition sB :: HighlightRect where
  "sB = \<lparr>height = 10, left = 60, top_y = 0, width = 30, pageNumber = 1\<rparr>"

text \<open>A document whose elements have no text layer above them, and two selections.\<close>

definition outsidePages :: Document where
  "outsidePages = (\<lambda>x y. Some \<lparr>closestTextLayer = None, isSuperOrSubScript = False\<rparr>)"

definition caret :: DomSelection where
  "caret = \<lparr>isCollapsed = True, ranges = [\<lparr>clientRects = [], trimmedText = []\<rparr>]\<rparr>"

definition toolbarText :: DomSelection where
  "toolbarText =
     \<lparr>isCollapsed = False,
      ranges = [\<lparr>clientRects =
                   [\<lparr>cr_left = 10, cr_top = 20, cr_width = 50, cr_height = 12\<rparr>,
                    \<lparr>cr_left = 60, cr_top = 20, cr_width = 1, cr_height = 12\<rparr>],
                 trimmedText = ''Zoom''\<rparr>]\<rparr>"

text \<open>A document that is all text layer of page 3, and a selection of one word.\<close>

definition onPage3 :: Document where
  "onPage3 =
     (\<lambda>x y. Some \<lparr>closestTextLayer =
                      Some \<lparr>dataPageNumber = 3, layerLeft = 100, layerTop = 50\<rparr>,
                    isSuperOrSubScript = False\<rparr>)"

definition oneWord :: DomSelection where
  "oneWord =
     \<lparr>isCollapsed = False,
      ranges = [\<lparr>clientRects =
                   [\<lparr>cr_left = 110, cr_top = 70, cr_width = 50, cr_height = 12\<rparr>],
                 trimmedText = ''word''\<rparr>]\<rparr>"

section \<open>Scenarios of the merge threshold\<close>

lemma upt_two: "[0..<Suc (Suc 0)] = [0, Suc 0]"
  by (simp add: upt_rec)

lemmas rect_defs =
  scanPass_def scanStep_def doRectsOverlap_def shouldMergeRects_def growBounds_def
  MERGE_THRESHOLD_def

lemmas highlight_defs =
  sort_cmp_def highlightCompare_def highlightsConnected_def mergeHighlights_def
  MERGE_THRESHOLD_def

text \<open>
  Claim C7. Two rectangles on page 1, both at top 0 with height 10: the first spans
  0 to 50, the second starts at 52 with width 30. The gap of 2 is within
  \<open>MERGE_THRESHOLD\<close>, and both consolidations return the single rectangle from 0 with
  width 82. When the second rectangle starts at 60 instead, the gap is 10 and both
  consolidations return the two rectangles unchanged.
\<close>

theorem merge_threshold_scenario:
  "consolidateHighlightRects
     [\<lparr>height = 10, left = 0, top_y = 0, width = 50, pageNumber = 1\<rparr>,
      \<lparr>height = 10, left = 52, top_y = 0, width = 30, pageNumber = 1\<rparr>]
   = [\<lparr>height = 10, left = 0, top_y = 0, width = 82, pageNumber = 1\<rparr>]
   \<and>
   consolidateHighlightRects
     [\<lparr>height = 10, left = 0, top_y = 0, width = 50, pageNumber = 1\<rparr>,
      \<lparr>height = 10, left = 60, top_y = 0, width = 30, pageNumber = 1\<rparr>]
   = [\<lparr>height = 10, left = 0, top_y = 0, width = 50, pageNumber = 1\<rparr>,
      \<lparr>height = 10, left = 60, top_y = 0, width = 30, pageNumber = 1\<rparr>]
   \<and>
   consolidateRects
     [\<lparr>height = 10, left = 0, top_y = 0, width = 50, pageNumber = 1\<rparr>,
      \<lparr>height = 10, left = 52, top_y = 0, width = 30, pageNumber = 1\<rparr>]
   = Inr [\<lparr>height = 10, left = 0, top_y = 0, width = 82, pageNumber = 1\<rparr>]
   \<and>
   consolidateRects
     [\<lparr>height = 10, left = 0, top_y = 0, width = 50, pageNumber = 1\<rparr>,
      \<lparr>height = 10, left = 60, top_y = 0, width = 30, pageNumber = 1\<rparr>]
   = Inr [\<lparr>height = 10, left = 0, top_y = 0, width = 50, pageNumber = 1\<rparr>,
          \<lparr>height = 10, left = 60, top_y = 0, width = 30, pageNumber = 1\<rparr>]"
  by (simp add: consolidateHighlightRects_def consolidateRects_def upt_two
      absorbLoop.simps rect_defs highlight_defs)

section \<open>The annotation store\<close>

text \<open>
  Claim C10. \<open>updateAnnotation\<close> keeps the length of the list and leaves every entry
  whose id differs from the given one as it was, at its position; when no entry has
  the given id, \<open>updateAnnotation\<close> and \<open>deleteAnnotation\<close> both return the list
  unchanged.
\<close>

theorem store_frame:
  "length (updateAnnotation i u xs) = length xs \<and>
   (\<forall>k < length xs. id' (xs ! k) \<noteq> i \<longrightarrow> updateAnnotation i u xs ! k = xs ! k) \<and>
   ((\<forall>a \<in> set xs. id' a \<noteq> i) \<longrightarrow>
      updateAnnotation i u xs = xs \<and> deleteAnnotation i xs = xs)"
  by (auto simp: updateAnnotation_def deleteAnnotation_def map_idI filter_id_conv)

theorem store_frame_witness:
  "updateAnnotation ''a1'' (emptyUpdates\<lparr>u_comment := Some (Some ''note'')\<rparr>)
       [plainHighlight, pendingNote] ! 0 = plainHighlight \<and>
   updateAnnotation ''zz'' (emptyUpdates\<lparr>u_comment := Some (Some ''note'')\<rparr>)
       [plainHighlight, pendingNote] = [plainHighlight, pendingNote] \<and>
   deleteAnnotation ''zz'' [plainHighlight, pendingNote] = [plainHighlight, pendingNote]"
  using store_frame [of "''a1''" "emptyUpdates\<lparr>u_comment := Some (Some ''note'')\<rparr>"
      "[plainHighlight, pendingNote]"]
    store_frame [of "''zz''" "emptyUpdates\<lparr>u_comment := Some (Some ''note'')\<rparr>"
      "[plainHighlight, pendingNote]"]
  by (simp add: plainHighlight_def pendingNote_def)

section \<open>Cleanup of comment-pending annotations\<close>

lemma find_by_id:
  "a \<in> set xs \<Longrightarrow> distinct (map id' xs) \<Longrightarrow> find (\<lambda>x. id' x = id' a) xs = Some a"
  by (induction xs) (auto simp: image_iff)

lemma mem_deleteAnnotation:
  "a \<in> set (deleteAnnotation i xs) \<longleftrightarrow> a \<in> set xs \<and> id' a \<noteq> i"
  by (simp add: deleteAnnotation_def)

lemma cancel_keeps_iff:
  assumes "a \<in> set (annotations s)" and "distinct (map id' (annotations s))"
    and "id' a \<noteq> []" and "editingAnnotationId s = Some (id' a)"
  shows "a \<in> set (annotations (handleCancelComment s)) \<longleftrightarrow> truthyString (comment a)"
  using assms by (simp add: handleCancelComment_def find_by_id mem_deleteAnnotation)

lemma close_keeps_iff:
  assumes "a \<in> set (annotations s)" and "truthyFlag (isCommentPending a)"
  shows "a \<in> set (annotations (handleAnnotationTooltipClose a s)) \<longleftrightarrow>
         truthyString (comment a)"
  using assms by (simp add: handleAnnotationTooltipClose_def mem_deleteAnnotation)

lemma id_spreadUpdates:
  "u_id u = None \<Longrightarrow> id' (spreadUpdates a u) = id' a"
  by (simp add: spreadUpdates_def override_def)

lemma map_id_update:
  "u_id u = None \<Longrightarrow> map id' (updateAnnotation i u xs) = map id' xs"
  by (induction xs) (auto simp: updateAnnotation_def id_spreadUpdates)

lemma update_mem:
  "a \<in> set xs \<Longrightarrow> spreadUpdates a u \<in> set (updateAnnotation (id' a) u xs)"
  by (auto simp: updateAnnotation_def image_iff intro!: bexI [of _ a])

text \<open>
  Claim C9. Let \<open>a\<close> be a comment-pending annotation of the store, the one the
  composer is open for, with ids unique in the store. A comment is attached when the
  \<open>comment\<close> field holds a non-empty string (the composer saves only non-empty,
  trimmed text). Cancelling the composer, and closing the tooltip of \<open>a\<close>, each keep
  \<open>a\<close> in the store exactly when a comment is attached, and delete it otherwise. If
  \<open>updateAnnotation\<close> first attaches a non-empty comment \<open>c\<close>, the updated annotation
  survives both.
\<close>

theorem comment_pending_cleanup:
  assumes "a \<in> set (annotations s)"
    and "distinct (map id' (annotations s))"
    and "truthyFlag (isCommentPending a)"
    and "id' a \<noteq> []"
    and "editingAnnotationId s = Some (id' a)"
  shows "(a \<in> set (annotations (handleCancelComment s)) \<longleftrightarrow> truthyString (comment a)) \<and>
         (a \<in> set (annotations (handleAnnotationTooltipClose a s)) \<longleftrightarrow>
            truthyString (comment a)) \<and>
         (c \<noteq> [] \<longrightarrow>
            (let u = emptyUpdates\<lparr>u_comment := Some (Some c), u_updatedAt := Some now\<rparr>;
                 s' = s\<lparr>annotations := updateAnnotation (id' a) u (annotations s)\<rparr>
             in spreadUpdates a u \<in> set (annotations (handleCancelComment s')) \<and>
                spreadUpdates a u \<in>
                  set (annotations (handleAnnotationTooltipClose (spreadUpdates a u) s'))))"
proof (intro conjI impI)
  show "a \<in> set (annotations (handleCancelComment s)) \<longleftrightarrow> truthyString (comment a)"
    using assms(1,2,4,5) by (rule cancel_keeps_iff)
  show "a \<in> set (annotations (handleAnnotationTooltipClose a s)) \<longleftrightarrow>
        truthyString (comment a)"
    using assms(1,3) by (rule close_keeps_iff)
next
  assume c: "c \<noteq> []"
  define u where "u = emptyUpdates\<lparr>u_comment := Some (Some c), u_updatedAt := Some now\<rparr>"
  define s' where "s' = s\<lparr>annotations := updateAnnotation (id' a) u (annotations s)\<rparr>"
  have uid: "u_id u = None"
    by (simp add: u_def emptyUpdates_def)
  have m: "spreadUpdates a u \<in> set (annotations s')"
    using assms(1) by (simp add: s'_def update_mem)
  have d: "distinct (map id' (annotations s'))"
    using assms(2) by (simp add: s'_def map_id_update uid)
  have i: "id' (spreadUpdates a u) = id' a"
    by (simp add: id_spreadUpdates uid)
  have t: "truthyString (comment (spreadUpdates a u))"
    using c by (simp add: spreadUpdates_def override_def u_def truthyString_def)
  have p: "truthyFlag (isCommentPending (spreadUpdates a u))"
    using assms(3) by (simp add: spreadUpdates_def override_def u_def emptyUpdates_def)
  have e: "editingAnnotationId s' = Some (id' (spreadUpdates a u))"
    using assms(5) by (simp add: s'_def i)
  have "spreadUpdates a u \<in> set (annotations (handleCancelComment s'))"
    using cancel_keeps_iff [OF m d _ e] assms(4) t by (simp add: i)
  moreover have "spreadUpdates a u \<in>
      set (annotations (handleAnnotationTooltipClose (spreadUpdates a u) s'))"
    using close_keeps_iff [OF m p] t by simp
  ultimately show
    "let u = emptyUpdates\<lparr>u_comment := Some (Some c), u_updatedAt := Some now\<rparr>;
         s' = s\<lparr>annotations := updateAnnotation (id' a) u (annotations s)\<rparr>
     in spreadUpdates a u \<in> set (annotations (handleCancelComment s')) \<and>
        spreadUpdates a u \<in>
          set (annotations (handleAnnotationTooltipClose (spreadUpdates a u) s'))"
    by (simp add: Let_def u_def s'_def)
qed

theorem comment_pending_cleanup_witness:
  "pendingNote \<in> set (annotations composing) \<and>
   pendingNote \<notin> set (annotations (handleCancelComment composing)) \<and>
   pendingNote \<notin> set (annotations (handleAnnotationTooltipClose pendingNote composing)) \<and>
   pendingNote\<lparr>comment := Some ''note'', updatedAt := 200\<rparr> \<in>
     set (annotations (handleCancelComment
       (composing\<lparr>annotations :=
          updateAnnotation ''a1''
            (emptyUpdates\<lparr>u_comment := Some (Some ''note''), u_updatedAt := Some 200\<rparr>)
            (annotations composing)\<rparr>)))"
  using comment_pending_cleanup [of pendingNote composing "''note''" 200]
  by (simp add: composing_def pendingNote_def plainHighlight_def truthyFlag_def
      truthyString_def spreadUpdates_def override_def emptyUpdates_def Let_def)

section \<open>Raster surface limits\<close>







text \<open>
  Claim C3, as stated, fails: \<open>useCanvasLayer\<close> applies no clamp. At device pixel
  ratio 1 and zoom 6 a page of 1000 by 1000 gets a surface of 6000 by 6000, which is
  36,000,000 pixels; at zoom 40 each side is 40000.
\<close>

theorem base_surface_exceeds_limits:
  "baseCanvasSize 1 6 1000 1000 = (6000, 6000) \<and>
   MAX_CANVAS_PIXELS < real_of_int (6000 * 6000) \<and>
   baseCanvasSize 1 40 1000 1000 = (40000, 40000) \<and>
   MAX_CANVAS_DIMENSION < real_of_int 40000"
  by (simp add: baseCanvasSize_def MAX_CANVAS_PIXELS_def MAX_CANVAS_DIMENSION_def)

text \<open>
  Claim C3, amended. The base surface is \<open>\<lfloor>w \<times> dpr \<times> zoom\<rfloor>\<close> by
  \<open>\<lfloor>h \<times> dpr \<times> zoom\<rfloor>\<close>, with no clamp. It stays within 16,777,216 pixels and
  32,767 per side whenever the requested size \<open>w \<times> dpr \<times> zoom\<close> by
  \<open>h \<times> dpr \<times> zoom\<close> (both sides non-negative) is within these limits.
\<close>

theorem base_surface_unclamped:
  "(case baseCanvasSize dpr zoom w h of (cw, ch) \<Rightarrow>
      cw = \<lfloor>w * (dpr * zoom)\<rfloor> \<and> ch = \<lfloor>h * (dpr * zoom)\<rfloor> \<and>
      (0 \<le> w * (dpr * zoom) \<and> 0 \<le> h * (dpr * zoom) \<and>
       (w * (dpr * zoom)) * (h * (dpr * zoom)) \<le> MAX_CANVAS_PIXELS \<and>
       w * (dpr * zoom) \<le> MAX_CANVAS_DIMENSION \<and>
       h * (dpr * zoom) \<le> MAX_CANVAS_DIMENSION \<longrightarrow>
         real_of_int (cw * ch) \<le> MAX_CANVAS_PIXELS \<and>
         real_of_int cw \<le> MAX_CANVAS_DIMENSION \<and>
         real_of_int ch \<le> MAX_CANVAS_DIMENSION))"
proof -
  define a where "a = w * (dpr * zoom)"
  define b where "b = h * (dpr * zoom)"
  have fa: "real_of_int \<lfloor>a\<rfloor> \<le> a" and fb: "real_of_int \<lfloor>b\<rfloor> \<le> b"
    by simp_all
  have "real_of_int (\<lfloor>a\<rfloor> * \<lfloor>b\<rfloor>) \<le> a * b" if "0 \<le> a" "0 \<le> b"
  proof -
    have "0 \<le> real_of_int \<lfloor>a\<rfloor>" "0 \<le> real_of_int \<lfloor>b\<rfloor>"
      using that by simp_all
    then have "real_of_int \<lfloor>a\<rfloor> * real_of_int \<lfloor>b\<rfloor> \<le> a * b"
      using fa fb that by (intro mult_mono) auto
    then show ?thesis by simp
  qed
  moreover have "real_of_int \<lfloor>a\<rfloor> \<le> MAX_CANVAS_DIMENSION" if "a \<le> MAX_CANVAS_DIMENSION"
    using fa that by linarith
  moreover have "real_of_int \<lfloor>b\<rfloor> \<le> MAX_CANVAS_DIMENSION" if "b \<le> MAX_CANVAS_DIMENSION"
    using fb that by linarith
  ultimately have "0 \<le> a \<and> 0 \<le> b \<and> a * b \<le> MAX_CANVAS_PIXELS \<and>
       a \<le> MAX_CANVAS_DIMENSION \<and> b \<le> MAX_CANVAS_DIMENSION \<longrightarrow>
         real_of_int (\<lfloor>a\<rfloor> * \<lfloor>b\<rfloor>) \<le> MAX_CANVAS_PIXELS \<and>
         real_of_int \<lfloor>a\<rfloor> \<le> MAX_CANVAS_DIMENSION \<and>
         real_of_int \<lfloor>b\<rfloor> \<le> MAX_CANVAS_DIMENSION"
    by (metis order_trans)
  then show ?thesis
    by (simp add: baseCanvasSize_def Let_def a_def b_def)
qed

theorem base_surface_unclamped_witness:
  "baseCanvasSize 1 1 1000 1000 = (1000, 1000) \<and>
   real_of_int (1000 * 1000) \<le> MAX_CANVAS_PIXELS \<and>
   real_of_int 1000 \<le> MAX_CANVAS_DIMENSION"
  using base_surface_unclamped [of 1 1 1000 1000]
  by (simp add: baseCanvasSize_def MAX_CANVAS_PIXELS_def MAX_CANVAS_DIMENSION_def)

section \<open>Consolidation: groups, bounds and fixed points\<close>

lemma containsRect_refl: "containsRect r r"
  by (simp add: containsRect_def)



lemma growBounds_tuple:
  "growBounds r (a, b, c, d) =
     (min a (left r), min b (top_y r), max c (left r + width r), max d (top_y r + height r))"
  by (simp add: growBounds_def)

lemma fold_growBounds:
  "fold growBounds rs (a, b, c, d) = (a', b', c', d') \<Longrightarrow>
     a' \<le> a \<and> b' \<le> b \<and> c \<le> c' \<and> d \<le> d' \<and>
     (\<forall>r \<in> set rs. a' \<le> left r \<and> b' \<le> top_y r \<and>
        left r + width r \<le> c' \<and> top_y r + height r \<le> d')"
proof (induction rs arbitrary: a b c d)
  case Nil
  then show ?case by simp
next
  case (Cons r rs)
  from Cons.prems have
    "fold growBounds rs (min a (left r), min b (top_y r),
        max c (left r + width r), max d (top_y r + height r)) = (a', b', c', d')"
    by (simp add: growBounds_tuple)
  from Cons.IH [OF this] show ?case
    by auto
qed

lemma mergeRectGroup_bounds:
  assumes "g \<noteq> []"
  shows "\<exists>m. mergeRectGroup g = Inr m \<and> (\<forall>r \<in> set g. containsRect m r) \<and>
             pageNumber m = pageNumber (hd g)"
proof (cases g rule: mergeRectGroup.cases)
  case 1
  with assms show ?thesis by simp
next
  case (2 rect)
  then show ?thesis by (simp add: containsRect_refl)
next
  case (3 firstRect v va)
  obtain a b c d where f: "fold growBounds (firstRect # v # va)
      (left firstRect, top_y firstRect, left firstRect + width firstRect,
       top_y firstRect + height firstRect) = (a, b, c, d)"
    using prod_cases4 by blast
  from fold_growBounds [OF f] have
    "\<forall>r \<in> set (firstRect # v # va). a \<le> left r \<and> b \<le> top_y r \<and>
        left r + width r \<le> c \<and> top_y r + height r \<le> d"
    by blast
  with f 3 show ?thesis
    by (simp add: containsRect_def)
qed











lemma fold_scanStep_idle:
  assumes "\<forall>j \<in> set js. j \<in> v \<or> \<not> doRectsOverlap r (rects ! j)"
  shows "fold (scanStep rects) js (v, [r], False) = (v, [r], False)"
  using assms by (induction js) (auto simp: scanStep_def Let_def)

lemma absorbLoop_idle:
  assumes "noOverlappingPair rects" and "i < length rects" and "v = {..<i}"
  shows "absorbLoop rects (insert i v) [rects ! i] = (insert i v, [rects ! i])"
proof -
  have "\<forall>j \<in> set [0..<length rects].
      j \<in> insert i v \<or> \<not> doRectsOverlap (rects ! i) (rects ! j)"
    using assms(1,2) by (auto simp: noOverlappingPair_def)
  then have "scanPass rects (insert i v, [rects ! i], False) = (insert i v, [rects ! i], False)"
    unfolding scanPass_def by (rule fold_scanStep_idle)
  then show ?thesis
    by (simp add: absorbLoop.simps [of rects "insert i v" "[rects ! i]"])
qed

lemma groupLoop_idle:
  assumes "noOverlappingPair rects"
  shows "i \<le> length rects \<Longrightarrow>
     groupLoop rects [i..<length rects] {..<i} (take i rects) = Inr rects"
proof (induction "length rects - i" arbitrary: i)
  case 0
  then show ?case by simp
next
  case (Suc n)
  then have i: "i < length rects" by simp
  then have u: "[i..<length rects] = i # [Suc i..<length rects]"
    by (simp add: upt_conv_Cons)
  have a: "absorbLoop rects (insert i {..<i}) [rects ! i] = (insert i {..<i}, [rects ! i])"
    using assms i by (rule absorbLoop_idle) simp
  have "groupLoop rects [Suc i..<length rects] {..<Suc i} (take (Suc i) rects) = Inr rects"
    using Suc.hyps(2) i by (intro Suc.hyps(1)) simp_all
  then show ?case
    using i by (simp add: u a lessThan_Suc take_Suc_conv_app_nth)
qed

lemma consolidateRects_fixed:
  assumes "noOverlappingPair rects"
  shows "consolidateRects rects = Inr rects"
proof (cases "length rects \<le> 1")
  case True
  then show ?thesis by (simp add: consolidateRects_def)
next
  case False
  from groupLoop_idle [OF assms, of 0] have
    "groupLoop rects [0..<length rects] {} [] = Inr rects"
    by (simp add: lessThan_0)
  with False show ?thesis by (simp add: consolidateRects_def)
qed









lemma highlightLoop_idle:
  "noConnectedNeighbours (c # rest) \<Longrightarrow> highlightLoop c rest cons = cons @ c # rest"
  by (induction rest arbitrary: c cons) simp_all

lemma consolidateHighlightRects_fixed:
  assumes "sort_cmp highlightCompare rects = rects" and "noConnectedNeighbours rects"
  shows "consolidateHighlightRects rects = rects"
  using assms
  by (cases rects) (simp_all add: consolidateHighlightRects_def highlightLoop_idle)






section \<open>Containment\<close>



section \<open>Idempotence\<close>

lemma absorbLoop_step:
  "scanPass rects (v, g, False) = (v', g', f) \<Longrightarrow>
     absorbLoop rects v g = (if f then absorbLoop rects v' g' else (v', g'))"
  by (simp add: absorbLoop.simps [of rects v g])

lemma upt_three: "[0..<Suc (Suc (Suc 0))] = [0, Suc 0, Suc (Suc 0)]"
  by (simp add: upt_rec)

lemma bars_overlap:
  "doRectsOverlap rA rB" "\<not> doRectsOverlap rA rC" "\<not> doRectsOverlap rB rC"
  "doRectsOverlap rM rC"
  by (simp_all add: doRectsOverlap_def shouldMergeRects_def MERGE_THRESHOLD_def
      rA_def rB_def rC_def rM_def)

lemma bars_pass1:
  "scanPass [rA, rB, rC] ({0}, [rA], False) = ({0, Suc 0}, [rA, rB], True)"
  by (simp add: scanPass_def scanStep_def upt_three bars_overlap insert_commute)

lemma bars_pass2:
  "scanPass [rA, rB, rC] ({0, Suc 0}, [rA, rB], False) = ({0, Suc 0}, [rA, rB], False)"
  by (simp add: scanPass_def scanStep_def upt_three bars_overlap)

lemma bars_pass3:
  "scanPass [rA, rB, rC] ({0, Suc 0, Suc (Suc 0)}, [rC], False) =
     ({0, Suc 0, Suc (Suc 0)}, [rC], False)"
  by (simp add: scanPass_def scanStep_def upt_three)

lemma bars_group1: "absorbLoop [rA, rB, rC] {0} [rA] = ({0, Suc 0}, [rA, rB])"
  by (simp add: absorbLoop_step [OF bars_pass1] absorbLoop_step [OF bars_pass2])

lemma bars_group2:
  "absorbLoop [rA, rB, rC] {0, Suc 0, Suc (Suc 0)} [rC] = ({0, Suc 0, Suc (Suc 0)}, [rC])"
  by (simp add: absorbLoop_step [OF bars_pass3])

lemma bars_merge: "mergeRectGroup [rA, rB] = Inr rM"
  by (simp add: growBounds_def rA_def rB_def rM_def)

lemma bars_first_pass: "consolidateRects [rA, rB, rC] = Inr [rM, rC]"
  by (simp add: consolidateRects_def upt_three bars_group1 bars_group2 bars_merge
      insert_commute del: mergeRectGroup.simps(3))

lemma hull_pass1: "scanPass [rM, rC] ({0}, [rM], False) = ({0, Suc 0}, [rM, rC], True)"
  by (simp add: scanPass_def scanStep_def upt_two bars_overlap insert_commute)

lemma hull_pass2:
  "scanPass [rM, rC] ({0, Suc 0}, [rM, rC], False) = ({0, Suc 0}, [rM, rC], False)"
  by (simp add: scanPass_def scanStep_def upt_two)

lemma hull_group: "absorbLoop [rM, rC] {0} [rM] = ({0, Suc 0}, [rM, rC])"
  by (simp add: absorbLoop_step [OF hull_pass1] absorbLoop_step [OF hull_pass2])

lemma hull_merge: "mergeRectGroup [rM, rC] = Inr rM"
  by (simp add: growBounds_def rM_def rC_def)

lemma bars_second_pass: "consolidateRects [rM, rC] = Inr [rM]"
  by (simp add: consolidateRects_def upt_two hull_group hull_merge
      del: mergeRectGroup.simps(3))

lemma lines_first_pass: "consolidateHighlightRects [hA, hB, hC] = [hA, hM]"
  by (simp add: consolidateHighlightRects_def highlight_defs hA_def hB_def hC_def hM_def)

lemma lines_second_pass: "consolidateHighlightRects [hA, hM] = [hN]"
  by (simp add: consolidateHighlightRects_def highlight_defs hA_def hM_def hN_def)

lemma pair_scan_merge:
  "doRectsOverlap a b \<Longrightarrow>
     scanPass [a, b] ({0}, [a], False) = ({0, Suc 0}, [a, b], True)"
  by (simp add: scanPass_def scanStep_def upt_two insert_commute)

lemma pair_scan_apart:
  "\<not> doRectsOverlap a b \<Longrightarrow> scanPass [a, b] ({0}, [a], False) = ({0}, [a], False)"
  by (simp add: scanPass_def scanStep_def upt_two)

lemma pair_scan_full:
  "scanPass [a, b] ({0, Suc 0}, g, False) = ({0, Suc 0}, g, False)"
  by (simp add: scanPass_def scanStep_def upt_two)

lemma pair_group_first:
  "absorbLoop [a, b] {0} [a] =
     (if doRectsOverlap a b then ({0, Suc 0}, [a, b]) else ({0}, [a]))"
  by (simp add: absorbLoop_step [OF pair_scan_merge] absorbLoop_step [OF pair_scan_apart]
      absorbLoop_step [OF pair_scan_full])

lemma pair_group_second:
  "absorbLoop [a, b] {0, Suc 0} [b] = ({0, Suc 0}, [b])"
  by (simp add: absorbLoop_step [OF pair_scan_full])

lemma consolidateRects_pair:
  "consolidateRects [a, b] =
     (if doRectsOverlap a b then
        (case mergeRectGroup [a, b] of Inl e \<Rightarrow> Inl e | Inr m \<Rightarrow> Inr [m])
      else Inr [a, b])"
  by (simp add: consolidateRects_def upt_two pair_group_first pair_group_second
      insert_commute del: mergeRectGroup.simps(3) split: sum.splits)

lemma consolidateRects_short_idem:
  assumes "length rects \<le> 2"
  shows "\<exists>out. consolidateRects rects = Inr out \<and> consolidateRects out = Inr out"
proof -
  consider "length rects \<le> 1" | a b where "rects = [a, b]"
    using assms
    by (cases rects; cases "tl rects"; cases "tl (tl rects)") auto
  then show ?thesis
  proof cases
    case 1
    then show ?thesis by (simp add: consolidateRects_def)
  next
    case 2
    show ?thesis
    proof (cases "doRectsOverlap a b")
      case True
      obtain m where "mergeRectGroup [a, b] = Inr m"
        using mergeRectGroup_bounds [of "[a, b]"] by auto
      with True 2 have "consolidateRects rects = Inr [m]"
        by (simp add: consolidateRects_pair del: mergeRectGroup.simps(3))
      moreover have "consolidateRects [m] = Inr [m]"
        by (simp add: consolidateRects_def)
      ultimately show ?thesis by blast
    next
      case False
      with 2 have "consolidateRects rects = Inr [a, b]"
        by (simp add: consolidateRects_pair)
      with 2 show ?thesis by blast
    qed
  qed
qed

lemma highlightCompare_swap: "highlightCompare b a = - highlightCompare a b"
  by (simp add: highlightCompare_def Let_def abs_minus_commute)

lemma sort_pair_sorted:
  "sort_cmp highlightCompare (sort_cmp highlightCompare [a, b]) =
     sort_cmp highlightCompare [a, b]"
  using highlightCompare_swap [of b a]
  by (simp add: sort_cmp_def)

lemma consolidateHighlightRects_short_idem:
  assumes "length rects \<le> 2"
  shows "consolidateHighlightRects (consolidateHighlightRects rects) =
         consolidateHighlightRects rects"
proof -
  consider "length rects \<le> 1" | a b where "rects = [a, b]"
    using assms
    by (cases rects; cases "tl rects"; cases "tl (tl rects)") auto
  then show ?thesis
  proof cases
    case 1
    then show ?thesis by (simp add: consolidateHighlightRects_def)
  next
    case 2
    have "sort_cmp highlightCompare [a, b] = [a, b] \<or>
        sort_cmp highlightCompare [a, b] = [b, a]"
      by (simp add: sort_cmp_def)
    then obtain x y where xy: "sort_cmp highlightCompare [a, b] = [x, y]"
      by blast
    with sort_pair_sorted [of a b] have s: "sort_cmp highlightCompare [x, y] = [x, y]"
      by simp
    from xy 2 have f: "consolidateHighlightRects rects =
        (if highlightsConnected x y then [mergeHighlights x y] else [x, y])"
      by (simp add: consolidateHighlightRects_def)
    show ?thesis
    proof (cases "highlightsConnected x y")
      case True
      with f show ?thesis by (simp add: consolidateHighlightRects_def)
    next
      case False
      with f s show ?thesis by (simp add: consolidateHighlightRects_def)
    qed
  qed
qed

text \<open>
  Claim C1, as stated, fails for both consolidations. \<open>consolidateRects\<close> merges the
  two bars \<open>rA\<close> and \<open>rB\<close> into their hull \<open>rM\<close> and leaves the box \<open>rC\<close>, which
  touches neither bar but lies inside the hull; the second pass merges the box into
  the hull. \<open>consolidateHighlightRects\<close> keeps \<open>hA\<close> apart from \<open>hB\<close> (their tops
  differ by 8, not less than half the height 10) and merges \<open>hB\<close> with the tall \<open>hC\<close>
  into \<open>hM\<close> of height 30; in the second pass 8 is less than half of 30, and \<open>hA\<close>
  and \<open>hM\<close> merge.
\<close>

theorem idempotence_fails:
  "consolidateRects [rA, rB, rC] = Inr [rM, rC] \<and>
   consolidateRects [rM, rC] = Inr [rM] \<and>
   set [rM] \<noteq> set [rM, rC] \<and>
   consolidateHighlightRects [hA, hB, hC] = [hA, hM] \<and>
   consolidateHighlightRects [hA, hM] = [hN] \<and>
   set [hN] \<noteq> set [hA, hM]"
  using bars_first_pass bars_second_pass lines_first_pass lines_second_pass
  by (simp add: rM_def rC_def hA_def hM_def hN_def)

text \<open>
  Claim C1, amended. Consolidation is idempotent on inputs of at most two rectangles,
  and on any input whose first pass leaves nothing to merge: if no two rectangles of
  the output of \<open>consolidateRects\<close> pass \<open>doRectsOverlap\<close>, the second pass
  returns that output; if the output of \<open>consolidateHighlightRects\<close> is in sort
  order and no rectangle passes the merge test with its successor, the second pass
  returns that output. (Equal lists, hence equal sets.)
\<close>

theorem idempotent_when_settled:
  "(length rects \<le> 2 \<longrightarrow>
      (\<exists>res. consolidateRects rects = Inr res \<and> consolidateRects res = Inr res) \<and>
      consolidateHighlightRects (consolidateHighlightRects rects) =
        consolidateHighlightRects rects) \<and>
   (consolidateRects rects = Inr out \<and> noOverlappingPair out \<longrightarrow>
      consolidateRects out = Inr out) \<and>
   (sort_cmp highlightCompare (consolidateHighlightRects rects) =
      consolidateHighlightRects rects \<and>
    noConnectedNeighbours (consolidateHighlightRects rects) \<longrightarrow>
      consolidateHighlightRects (consolidateHighlightRects rects) =
      consolidateHighlightRects rects)"
  using consolidateRects_short_idem [of rects] consolidateHighlightRects_short_idem [of rects]
    consolidateRects_fixed [of out]
    consolidateHighlightRects_fixed [of "consolidateHighlightRects rects"]
  by blast

lemma scenario_apart:
  "consolidateRects [sA, sB] = Inr [sA, sB]" "consolidateHighlightRects [sA, sB] = [sA, sB]"
  by (simp_all add: consolidateRects_def consolidateHighlightRects_def upt_two
      absorbLoop.simps rect_defs highlight_defs sA_def sB_def)

lemma scenario_settled:
  "noOverlappingPair [sA, sB]" "noConnectedNeighbours [sA, sB]"
  "sort_cmp highlightCompare [sA, sB] = [sA, sB]"
  by (simp_all add: noOverlappingPair_def less_Suc_eq doRectsOverlap_def
      shouldMergeRects_def highlight_defs sA_def sB_def)

theorem idempotent_when_settled_witness:
  "(\<exists>res. consolidateRects [pA, pB] = Inr res \<and> consolidateRects res = Inr res) \<and>
   consolidateHighlightRects (consolidateHighlightRects [pA, pB]) =
     consolidateHighlightRects [pA, pB] \<and>
   consolidateRects [sA, sB] = Inr [sA, sB] \<and>
   noOverlappingPair [sA, sB] \<and>
   consolidateHighlightRects (consolidateHighlightRects [sA, sB]) =
     consolidateHighlightRects [sA, sB]"
  using idempotent_when_settled [of "[pA, pB]"]
    idempotent_when_settled [of "[sA, sB]" "[sA, sB]"] scenario_apart scenario_settled
  by simp

section \<open>Pages\<close>





section \<open>Degenerate selections\<close>

lemma collectRect_unresolved:
  "unresolved doc r \<Longrightarrow> collectRect doc zoom r maps = maps"
  by (auto simp: unresolved_def collectRect_def split: option.splits prod.splits)

lemma fold_collectRect_unresolved:
  "\<forall>r \<in> set rs. unresolved doc r \<Longrightarrow> fold (collectRect doc zoom) rs maps = maps"
  by (induction rs) (simp_all add: collectRect_unresolved)

text \<open>
  Claim C8. With no selection or a collapsed one, \<open>getAnnotationDimension\<close> returns
  \<^verbatim>\<open>undefined\<close>. With a selection that is not collapsed, whose first range has no
  client rectangle (wider and higher than 2) that resolves to a text layer, it returns
  the object with no highlights, no underlines, the text of the range and
  \<^verbatim>\<open>isCollapsed: false\<close>. In neither case does it throw.
\<close>

theorem degenerate_selection:
  "(selection = None \<or> (\<exists>sel. selection = Some sel \<and> isCollapsed sel) \<longrightarrow>
      getAnnotationDimension doc zoom selection = Inr None) \<and>
   (selection = Some sel \<and> \<not> isCollapsed sel \<and> ranges sel = rng # others \<and>
    (\<forall>r \<in> set (clientRects rng).
       cr_width r > 2 \<and> cr_height r > 2 \<longrightarrow> unresolved doc r) \<longrightarrow>
      getAnnotationDimension doc zoom selection =
        Inr (Some \<lparr>sel_highlights = [], sel_underlines = [],
                   sel_text = trimmedText rng, sel_isCollapsed = False\<rparr>))"
proof (intro conjI impI)
  assume "selection = None \<or> (\<exists>sel. selection = Some sel \<and> isCollapsed sel)"
  then show "getAnnotationDimension doc zoom selection = Inr None"
    by (auto simp: getAnnotationDimension_def)
next
  assume a: "selection = Some sel \<and> \<not> isCollapsed sel \<and> ranges sel = rng # others \<and>
    (\<forall>r \<in> set (clientRects rng). cr_width r > 2 \<and> cr_height r > 2 \<longrightarrow> unresolved doc r)"
  then have "\<forall>r \<in> set (filter (\<lambda>rect. cr_width rect > 2 \<and> cr_height rect > 2)
      (clientRects rng)). unresolved doc r"
    by simp
  then have "fold (collectRect doc zoom)
      (filter (\<lambda>rect. cr_width rect > 2 \<and> cr_height rect > 2) (clientRects rng)) ([], [])
      = ([], [])"
    by (rule fold_collectRect_unresolved)
  with a show "getAnnotationDimension doc zoom selection =
        Inr (Some \<lparr>sel_highlights = [], sel_underlines = [],
                   sel_text = trimmedText rng, sel_isCollapsed = False\<rparr>)"
    by (simp add: getAnnotationDimension_def Let_def sort_cmp_def consolidateUnderlines_def)
qed

theorem degenerate_selection_witness:
  "getAnnotationDimension outsidePages 2 (Some caret) = Inr None \<and>
   getAnnotationDimension outsidePages 2 (Some toolbarText) =
     Inr (Some \<lparr>sel_highlights = [], sel_underlines = [],
                sel_text = ''Zoom'', sel_isCollapsed = False\<rparr>)"
  using degenerate_selection [where selection = "Some caret" and doc = outsidePages
      and zoom = 2]
    degenerate_selection [where selection = "Some toolbarText" and sel = toolbarText
      and rng = "\<lparr>clientRects =
          [\<lparr>cr_left = 10, cr_top = 20, cr_width = 50, cr_height = 12\<rparr>,
           \<lparr>cr_left = 60, cr_top = 20, cr_width = 1, cr_height = 12\<rparr>],
        trimmedText = ''Zoom''\<rparr>" and others = "[]" and doc = outsidePages and zoom = 2]
  by (simp add: caret_def toolbarText_def outsidePages_def unresolved_def probeElement_def
      firstFound_def)

text \<open>
  For comparison, the ordinary path: at zoom 2 a client rectangle of 50 by 12 at
  (110, 70), over a text layer of page 3 at (100, 50), becomes one highlight and one
  underline in page coordinates.
\<close>

lemma one_word_collect:
  "collectRect onPage3 2 \<lparr>cr_left = 110, cr_top = 70, cr_width = 50, cr_height = 12\<rparr>
     ([], [])
   = ([(3, [\<lparr>height = 6, left = 5, top_y = 10, width = 25, pageNumber = 3\<rparr>])],
      [(3, [\<lparr>height = 1, left = 5, top_y = 151 / 10, width = 25, pageNumber = 3\<rparr>])])"
  by (simp add: collectRect_def probeElement_def firstFound_def onPage3_def pushRect_def
      Let_def)

lemma one_word_selection:
  "getAnnotationDimension onPage3 2 (Some oneWord) =
     Inr (Some
       \<lparr>sel_highlights =
          [\<lparr>height = 6, left = 5, top_y = 10, width = 25, pageNumber = 3\<rparr>],
        sel_underlines =
          [\<lparr>height = 3 / 2, left = 5, top_y = 151 / 10, width = 25, pageNumber = 3\<rparr>],
        sel_text = ''word'', sel_isCollapsed = False\<rparr>)"
  by (simp add: getAnnotationDimension_def oneWord_def one_word_collect Let_def
      groupRectsByLine_def sort_cmp_def consolidateUnderlines_def)

end
